theory Spec2Isabelle
  imports Main "HOL-Library.Word" "HOL-Library.Multiset"
begin

section \<open>Data model of the MQTT forwarding plugin (plugin.go)\<close>

text \<open>
  \<^verbatim>\<open>MQTTConfig\<close> (plugin.go, lines 30-39). \<open>Port\<close> and \<open>KeepAlive\<close> are Go \<open>int\<close>s that
  the plugin only compares with constants; \<open>QoS\<close> is a \<open>byte\<close>.
\<close>

record MQTTConfig =
  IP :: string
  Port :: int
  Username :: string
  Password :: string
  QoS :: "8 word"
  Topic :: string
  KeepAlive :: int
  Retain :: bool

text \<open>
  \<^verbatim>\<open>plugin.Message\<close> of the Gotify plugin API. Only the field \<open>Message\<close> is read by
  the plugin (line 129); the others are carried along in the queue.
\<close>

record plugin_Message =
  Message :: string
  Title :: string
  Priority :: int
  Extras :: "(string \<times> string) list"

text \<open>
  The options the plugin hands to \<^verbatim>\<open>mqtt.NewClient\<close> (lines 61-64) and the client built
  from them. The client is a black box with the operations Connect, IsConnected, Publish
  and Disconnect; \<open>connected\<close> is the answer \<^verbatim>\<open>IsConnected()\<close> gives.
\<close>

record ClientOptions =
  Servers :: "string list"
  optUsername :: string
  optPassword :: string
  optKeepAlive :: int

record Client =
  options :: ClientOptions
  connected :: bool

text \<open>
  \<^verbatim>\<open>plugin.MessageHandler\<close> is an interface value supplied by the host; the plugin only
  stores it and calls \<^verbatim>\<open>SendMessage\<close> on it.
\<close>

datatype MessageHandler = HostHandler

text \<open>
  \<^verbatim>\<open>MQTTPlugin\<close> (lines 42-52). Pointers and interface values that may be nil are
  options; \<open>lastError\<close> holds the text of the stored error. The mutex \<open>mu\<close> is not a
  field of the model: operations run one after the other here, every operation that locks
  it unlocks it before it returns, and its Lock and Unlock calls are recorded in the trace
  of effects below.
\<close>

record MQTTPlugin =
  config :: "MQTTConfig option"
  msgHandler :: "MessageHandler option"
  mqttClient :: "Client option"
  basePath :: string
  lastError :: "string option"
  messageQueue :: "plugin_Message list"

text \<open>
  The calls the plugin makes on the mutex and on the broker client, and its writes to the
  queue, in the order in which they happen.
\<close>

datatype effect =
    MuLock
  | MuUnlock
  | Connect ClientOptions "string option"
  | IsConnected bool
  | Publish string "8 word" bool string
  | Disconnect nat
  | QueueAppend plugin_Message
  | QueueReset

record world =
  plug :: MQTTPlugin
  trace :: "effect list"

text \<open>A Go run-time panic: a nil dereference or a failed type assertion.\<close>

datatype fault = NilPointerPanic | TypeAssertionPanic

text \<open>The \<^verbatim>\<open>Publish\<close> calls of a trace, in order.\<close>

fun published :: "effect list \<Rightarrow> (string \<times> 8 word \<times> bool \<times> string) list" where
  "published [] = []"
| "published (Publish t q r m # es) = (t, q, r, m) # published es"
| "published (e # es) = published es"

section \<open>Formatting and address parsing (Go standard library)\<close>

text \<open>\<^verbatim>\<open>%d\<close> of \<^verbatim>\<open>fmt\<close>: the decimal digits of an integer.\<close>

fun fmt_nat :: "nat \<Rightarrow> string" where
  "fmt_nat n = (if n < 10 then [''0123456789'' ! n]
                else fmt_nat (n div 10) @ [''0123456789'' ! (n mod 10)])"

declare fmt_nat.simps [simp del]

definition fmt_d :: "int \<Rightarrow> string" where
  "fmt_d i = (if i < 0 then CHR ''-'' # fmt_nat (nat (- i)) else fmt_nat (nat i))"

text \<open>
  \<^verbatim>\<open>net.ParseIP\<close> belongs to the Go standard library, not to the repository. The model
  follows the library: the first of the characters \<open>.\<close>, \<open>:\<close> and \<open>%\<close> in the text
  selects the syntax; the dotted-decimal syntax is four fields separated by dots, each a
  decimal number of at most 255 without a leading zero. \<open>ParseIP\<close> is \<open>True\<close> where the
  library returns a non-nil address. The IPv6 syntax is the parameter \<open>v6\<close>.
\<close>

fun split_dots :: "string \<Rightarrow> string list" where
  "split_dots [] = [[]]"
| "split_dots (c # cs) =
     (if c = CHR ''.'' then [] # split_dots cs
      else (case split_dots cs of f # fs \<Rightarrow> (c # f) # fs | [] \<Rightarrow> [[c]]))"

definition is_digit :: "char \<Rightarrow> bool" where
  "is_digit c = (c \<in> set ''0123456789'')"

definition dec_value :: "string \<Rightarrow> nat" where
  "dec_value s = foldl (\<lambda>n c. 10 * n + (of_char c - 48)) 0 s"

definition octet_ok :: "string \<Rightarrow> bool" where
  "octet_ok s = (s \<noteq> [] \<and> list_all is_digit s \<and> \<not> (1 < length s \<and> hd s = CHR ''0'')
                 \<and> dec_value s \<le> 255)"

definition parseIPv4 :: "string \<Rightarrow> bool" where
  "parseIPv4 s = (let fs = split_dots s in length fs = 4 \<and> list_all octet_ok fs)"

definition ParseIP :: "(string \<Rightarrow> bool) \<Rightarrow> string \<Rightarrow> bool" where
  "ParseIP v6 s =
     (case find (\<lambda>c. c = CHR ''.'' \<or> c = CHR '':'' \<or> c = CHR ''%'') s of
        None \<Rightarrow> False
      | Some c \<Rightarrow> if c = CHR ''.'' then parseIPv4 s else if c = CHR '':'' then v6 s else False)"

section \<open>Configuration\<close>

text \<open>
  The argument of \<^verbatim>\<open>ValidateAndSetConfig\<close> is an \<^verbatim>\<open>interface{}\<close>: nil, a
  \<^verbatim>\<open>*MQTTConfig\<close> (itself possibly a nil pointer), or a value of another type.
\<close>

datatype iface = IfaceNil | IfaceConfig "MQTTConfig option" | IfaceOther

text \<open>\<^verbatim>\<open>DefaultConfig\<close> (lines 142-151); the fields not listed are zero values.\<close>

definition DefaultConfig :: MQTTConfig where
  "DefaultConfig = \<lparr>IP = ''127.0.0.1'', Port = 1883, Username = '''', Password = '''',
     QoS = 0, Topic = ''gotify/messages'', KeepAlive = 60, Retain = False\<rparr>"

text \<open>
  \<^verbatim>\<open>ValidateAndSetConfig\<close> (lines 154-174). The type assertion of line 155 panics
  unless the value is a \<^verbatim>\<open>*MQTTConfig\<close>; reading \<^verbatim>\<open>config.IP\<close> panics on a nil
  pointer. The result is the returned error (\<open>None\<close> is nil) and the plugin afterwards.
\<close>

definition ValidateAndSetConfig ::
    "(string \<Rightarrow> bool) \<Rightarrow> iface \<Rightarrow> MQTTPlugin \<Rightarrow> fault + (string option \<times> MQTTPlugin)" where
  "ValidateAndSetConfig v6 conf p =
     (case conf of
        IfaceNil \<Rightarrow> Inl TypeAssertionPanic
      | IfaceOther \<Rightarrow> Inl TypeAssertionPanic
      | IfaceConfig None \<Rightarrow> Inl NilPointerPanic
      | IfaceConfig (Some c) \<Rightarrow>
          if \<not> ParseIP v6 (IP c) then
            Inr (Some (''invalid IP address: '' @ IP c), p)
          else if Port c < 1 \<or> Port c > 65535 then
            Inr (Some (''port out of range: '' @ fmt_d (Port c)), p)
          else if KeepAlive c < 0 then
            Inr (Some (''invalid KeepAlive value: '' @ fmt_d (KeepAlive c)), p)
          else Inr (None, p\<lparr>config := Some c\<rparr>))"

section \<open>Lifecycle: Enable and Disable\<close>

text \<open>
  Lines 61-64 and 66: the options built from the configuration, and the fresh client,
  which is not connected. \<open>optKeepAlive\<close> is the duration handed to
  \<^verbatim>\<open>SetKeepAlive\<close>: \<^verbatim>\<open>time.Duration(KeepAlive) * time.Second\<close>, a product of 64-bit
  integers, in nanoseconds.
\<close>

definition NewClientOptions :: "MQTTConfig \<Rightarrow> ClientOptions" where
  "NewClientOptions c =
     \<lparr>Servers = [IP c @ '':'' @ fmt_d (Port c)],
      optUsername = Username c,
      optPassword = Password c,
      optKeepAlive = sint (word_of_int (KeepAlive c) * 1000000000 :: 64 word)\<rparr>"

definition NewClient :: "ClientOptions \<Rightarrow> Client" where
  "NewClient opts = \<lparr>options = opts, connected = False\<rparr>"

text \<open>
  \<^verbatim>\<open>forwardToMQTT\<close> (lines 128-131): one \<^verbatim>\<open>Publish\<close> call on the client with the
  topic, QoS and retain flag of the configuration and the text of the message; the token
  is waited for and its outcome dropped. A nil client or a nil configuration panics.
\<close>

definition forwardToMQTT :: "plugin_Message \<Rightarrow> world \<Rightarrow> fault + world" where
  "forwardToMQTT msg w =
     (case (mqttClient (plug w), config (plug w)) of
        (Some cl, Some c) \<Rightarrow>
          Inr (w\<lparr>trace := trace w @ [Publish (Topic c) (QoS c) (Retain c) (Message msg)]\<rparr>)
      | _ \<Rightarrow> Inl NilPointerPanic)"

text \<open>The loop of lines 75-77 over the queue as it is when the loop starts.\<close>

fun resend :: "plugin_Message list \<Rightarrow> world \<Rightarrow> fault + world" where
  "resend [] w = Inr w"
| "resend (msg # msgs) w =
     (case forwardToMQTT msg w of Inl f \<Rightarrow> Inl f | Inr w' \<Rightarrow> resend msgs w')"

text \<open>
  \<^verbatim>\<open>Enable\<close> (lines 60-83). \<open>conn\<close> is what the broker answers to \<^verbatim>\<open>Connect()\<close>:
  \<open>None\<close> for success, \<open>Some e\<close> for the error \<open>e\<close> of the token. The result is the
  returned error and the world afterwards. Reading \<^verbatim>\<open>p.config.IP\<close> panics when no
  configuration is installed. The two log lines are left out.
\<close>

definition Enable :: "string option \<Rightarrow> world \<Rightarrow> fault + (string option \<times> world)" where
  "Enable conn w =
     (case config (plug w) of
        None \<Rightarrow> Inl NilPointerPanic
      | Some c \<Rightarrow>
          let opts = NewClientOptions c;
              w1 = w\<lparr>plug := (plug w)\<lparr>mqttClient := Some (NewClient opts)\<rparr>,
                      trace := trace w @ [Connect opts conn]\<rparr>
          in (case conn of
                Some e \<Rightarrow>
                  let err = ''Failed to connect to MQTT Broker: '' @ e
                  in Inr (Some err, w1\<lparr>plug := (plug w1)\<lparr>lastError := Some err\<rparr>\<rparr>)
              | None \<Rightarrow>
                  let w2 = w1\<lparr>plug := (plug w1)\<lparr>mqttClient :=
                                  Some ((NewClient opts)\<lparr>connected := True\<rparr>)\<rparr>,
                              trace := trace w1 @ [MuLock]\<rparr>
                  in (case resend (messageQueue (plug w2)) w2 of
                        Inl f \<Rightarrow> Inl f
                      | Inr w3 \<Rightarrow>
                          Inr (None, w3\<lparr>plug := (plug w3)\<lparr>messageQueue := []\<rparr>,
                                        trace := trace w3 @ [QueueReset, MuUnlock]\<rparr>))))"

text \<open>
  \<^verbatim>\<open>Disable\<close> (lines 86-89): \<^verbatim>\<open>Disconnect(250)\<close> on the client, which panics when
  the client is nil; nothing else is touched.
\<close>

definition Disable :: "world \<Rightarrow> fault + (string option \<times> world)" where
  "Disable w =
     (case mqttClient (plug w) of
        None \<Rightarrow> Inl NilPointerPanic
      | Some cl \<Rightarrow>
          Inr (None, w\<lparr>plug := (plug w)\<lparr>mqttClient := Some (cl\<lparr>connected := False\<rparr>)\<rparr>,
                       trace := trace w @ [Disconnect 250]\<rparr>))"

section \<open>The webhook\<close>

text \<open>\<^verbatim>\<open>NewGotifyPluginInstance\<close> (line 56): every field has its zero value.\<close>

definition NewGotifyPluginInstance :: MQTTPlugin where
  "NewGotifyPluginInstance =
     \<lparr>config = None, msgHandler = None, mqttClient = None, basePath = [],
      lastError = None, messageQueue = []\<rparr>"

definition SetMessageHandler :: "MessageHandler \<Rightarrow> MQTTPlugin \<Rightarrow> MQTTPlugin" where
  "SetMessageHandler h p = p\<lparr>msgHandler := Some h\<rparr>"

text \<open>\<^verbatim>\<open>RegisterWebhook\<close> (line 98) stores the base path and registers the handler below.\<close>

definition RegisterWebhook :: "string \<Rightarrow> MQTTPlugin \<Rightarrow> MQTTPlugin" where
  "RegisterWebhook bp p = p\<lparr>basePath := bp\<rparr>"

text \<open>
  A request to \<^verbatim>\<open>POST /message\<close>: \<open>body\<close> is what \<^verbatim>\<open>BindJSON\<close> makes of the body
  (\<open>None\<close> when it fails), \<open>delivery\<close> is what the host's \<^verbatim>\<open>SendMessage\<close> returns for
  it when it is called (\<open>None\<close> is nil). A response is the status code with the one
  key and value of its JSON body.
\<close>

record request =
  body :: "plugin_Message option"
  delivery :: "string option"

type_synonym response = "nat \<times> string \<times> string"

text \<open>
  Lines 116-120, between Lock and Unlock: the client is asked for its state only when it
  is not nil; a connected client publishes, otherwise the message joins the queue.
\<close>

definition forward_or_queue :: "plugin_Message \<Rightarrow> world \<Rightarrow> fault + world" where
  "forward_or_queue msg w =
     (case mqttClient (plug w) of
        None \<Rightarrow>
          Inr (w\<lparr>plug := (plug w)\<lparr>messageQueue := messageQueue (plug w) @ [msg]\<rparr>,
                 trace := trace w @ [QueueAppend msg]\<rparr>)
      | Some cl \<Rightarrow>
          let w1 = w\<lparr>trace := trace w @ [IsConnected (connected cl)]\<rparr>
          in if connected cl then forwardToMQTT msg w1
             else Inr (w1\<lparr>plug := (plug w1)\<lparr>messageQueue := messageQueue (plug w1) @ [msg]\<rparr>,
                          trace := trace w1 @ [QueueAppend msg]\<rparr>))"

text \<open>The handler of lines 99-124. Calling \<^verbatim>\<open>SendMessage\<close> on a nil handler panics.\<close>

definition webhook :: "request \<Rightarrow> world \<Rightarrow> fault + (response \<times> world)" where
  "webhook req w =
     (case body req of
        None \<Rightarrow> Inr ((400, ''error'', ''Failed to parse message''), w)
      | Some msg \<Rightarrow>
          (case msgHandler (plug w) of
             None \<Rightarrow> Inl NilPointerPanic
           | Some h \<Rightarrow>
               (case delivery req of
                  Some e \<Rightarrow> Inr ((500, ''error'', ''Failed to send message to Gotify''), w)
                | None \<Rightarrow>
                    (case forward_or_queue msg (w\<lparr>trace := trace w @ [MuLock]\<rparr>) of
                       Inl f \<Rightarrow> Inl f
                     | Inr w' \<Rightarrow>
                         Inr ((200, ''status'', ''Message forwarded to MQTT and Gotify''),
                              w'\<lparr>trace := trace w' @ [MuUnlock]\<rparr>)))))"

section \<open>The status display\<close>

text \<open>
  \<^verbatim>\<open>GetDisplay\<close> (lines 134-139). \<open>location\<close> is the text \<^verbatim>\<open>location.String()\<close>
  gives, \<open>None\<close> for a nil pointer, on which the call panics.
\<close>

definition usage :: "string \<Rightarrow> string \<Rightarrow> string" where
  "usage loc bp = ''Send messages to '' @ loc @ bp @ ''message to forward them to MQTT.''"

definition GetDisplay :: "string option \<Rightarrow> MQTTPlugin \<Rightarrow> fault + string" where
  "GetDisplay location p =
     (case location of
        None \<Rightarrow> Inl NilPointerPanic
      | Some loc \<Rightarrow>
          (case lastError p of
             Some e \<Rightarrow> Inr (''Error: '' @ e @ [CHR 0x0A, CHR 0x0A] @ usage loc (basePath p))
           | None \<Rightarrow> Inr (usage loc (basePath p))))"

section \<open>Sequences of calls\<close>

text \<open>
  The host calls the plugin's operations one after the other; a panic ends the run.
\<close>

datatype call = CallEnable "string option" | CallDisable | CallWebhook request

definition exec :: "call \<Rightarrow> world \<Rightarrow> fault + world" where
  "exec c w =
     (case c of
        CallEnable conn \<Rightarrow> map_sum id snd (Enable conn w)
      | CallDisable \<Rightarrow> map_sum id snd (Disable w)
      | CallWebhook req \<Rightarrow> map_sum id snd (webhook req w))"

fun run :: "call list \<Rightarrow> world \<Rightarrow> fault + world" where
  "run [] w = Inr w"
| "run (c # cs) w = (case exec c w of Inl f \<Rightarrow> Inl f | Inr w' \<Rightarrow> run cs w')"

text \<open>A request whose body parses and whose delivery to the hub succeeds.\<close>

definition accepted :: "plugin_Message \<Rightarrow> request" where
  "accepted msg = \<lparr>body = Some msg, delivery = None\<rparr>"

text \<open>What the plugin publishes for a message under a configuration.\<close>

definition pub_of :: "MQTTConfig \<Rightarrow> plugin_Message \<Rightarrow> string \<times> 8 word \<times> bool \<times> string" where
  "pub_of c msg = (Topic c, QoS c, Retain c, Message msg)"

text \<open>
  The negation of the test of line 116: the client is nil or reports that it is not
  connected.
\<close>

definition disconnected :: "world \<Rightarrow> bool" where
  "disconnected w = (case mqttClient (plug w) of None \<Rightarrow> True | Some cl \<Rightarrow> \<not> connected cl)"

text \<open>The lifecycle calls, \<^verbatim>\<open>Enable\<close> and \<^verbatim>\<open>Disable\<close>.\<close>

definition is_lifecycle :: "call \<Rightarrow> bool" where
  "is_lifecycle c = (case c of CallWebhook req \<Rightarrow> False | _ \<Rightarrow> True)"

text \<open>
  The messages a call hands to the forwarding step: the message of a webhook request
  whose body parses and whose delivery succeeds, and nothing otherwise.
\<close>

fun accepted_by :: "call \<Rightarrow> plugin_Message list" where
  "accepted_by (CallWebhook req) =
     (case (body req, delivery req) of (Some msg, None) \<Rightarrow> [msg] | _ \<Rightarrow> [])"
| "accepted_by _ = []"

section \<open>Example states\<close>

text \<open>
  \<open>fresh\<close> is a new instance on which nothing was called. \<open>ready\<close> is an instance with
  the message handler set, the webhook registered and the default configuration installed.
  \<open>refused\<close> is \<open>ready\<close> after an \<^verbatim>\<open>Enable\<close> whose connect failed, \<open>online\<close> is
  \<open>ready\<close> after an \<^verbatim>\<open>Enable\<close> whose connect succeeded. \<open>text_message s\<close> is a
  message with the text \<open>s\<close>.
\<close>

definition fresh :: world where
  "fresh = \<lparr>plug = NewGotifyPluginInstance, trace = []\<rparr>"

definition ready :: world where
  "ready = \<lparr>plug = (SetMessageHandler HostHandler
                      (RegisterWebhook ''/plugin/1/custom/'' NewGotifyPluginInstance))
                    \<lparr>config := Some DefaultConfig\<rparr>,
            trace = []\<rparr>"

definition refused :: world where
  "refused = (case Enable (Some ''connection refused'') ready of
                Inr (e, w) \<Rightarrow> w | Inl f \<Rightarrow> ready)"

definition online :: world where
  "online = (case Enable None ready of Inr (e, w) \<Rightarrow> w | Inl f \<Rightarrow> ready)"

definition text_message :: "string \<Rightarrow> plugin_Message" where
  "text_message s = \<lparr>Message = s, Title = ''note'', Priority = 5, Extras = []\<rparr>"

text \<open>\<open>backlog\<close> is \<open>refused\<close> after three accepted messages have arrived.\<close>

definition backlog :: world where
  "backlog = (case run (map (\<lambda>m. CallWebhook (accepted m))
                         [text_message ''a'', text_message ''b'', text_message ''c'']) refused of
                Inr w \<Rightarrow> w | Inl f \<Rightarrow> refused)"

section \<open>Basic facts\<close>

lemma published_append [simp]: "published (es @ fs) = published es @ published fs"
  by (induction es rule: published.induct) simp_all

lemma published_map_Publish:
  "published (map (\<lambda>m. Publish (Topic c) (QoS c) (Retain c) (Message m)) msgs)
     = map (pub_of c) msgs"
  by (induction msgs) (simp_all add: pub_of_def)

text \<open>With a client and a configuration in place the loop publishes every message once.\<close>

lemma resend_trace:
  "config (plug w) = Some c \<Longrightarrow> mqttClient (plug w) = Some cl \<Longrightarrow>
   resend msgs w =
     Inr (w\<lparr>trace := trace w @ map (\<lambda>m. Publish (Topic c) (QoS c) (Retain c) (Message m)) msgs\<rparr>)"
proof (induction msgs arbitrary: w)
  case Nil
  then show ?case by simp
next
  case (Cons m msgs)
  then show ?case by (simp add: forwardToMQTT_def)
qed

lemma Enable_success:
  assumes "config (plug w) = Some c"
  shows "Enable None w =
    Inr (None,
         w\<lparr>plug := (plug w)\<lparr>mqttClient :=
                      Some \<lparr>options = NewClientOptions c, connected = True\<rparr>,
                    messageQueue := []\<rparr>,
            trace := trace w @ [Connect (NewClientOptions c) None, MuLock]
              @ map (\<lambda>m. Publish (Topic c) (QoS c) (Retain c) (Message m))
                    (messageQueue (plug w))
              @ [QueueReset, MuUnlock]\<rparr>)"
  using assms by (simp add: Enable_def Let_def NewClient_def resend_trace)

lemma Enable_failure:
  assumes "config (plug w) = Some c"
  shows "Enable (Some e) w =
    Inr (Some (''Failed to connect to MQTT Broker: '' @ e),
         w\<lparr>plug := (plug w)\<lparr>mqttClient :=
                      Some \<lparr>options = NewClientOptions c, connected = False\<rparr>,
                    lastError := Some (''Failed to connect to MQTT Broker: '' @ e)\<rparr>,
            trace := trace w @ [Connect (NewClientOptions c) (Some e)]\<rparr>)"
  using assms by (simp add: Enable_def Let_def NewClient_def)

lemma webhook_queues:
  assumes "msgHandler (plug w) \<noteq> None" and "disconnected w"
  shows "webhook (accepted msg) w =
    Inr ((200, ''status'', ''Message forwarded to MQTT and Gotify''),
         w\<lparr>plug := (plug w)\<lparr>messageQueue := messageQueue (plug w) @ [msg]\<rparr>,
            trace := trace w @ [MuLock]
              @ (case mqttClient (plug w) of None \<Rightarrow> [] | Some cl \<Rightarrow> [IsConnected False])
              @ [QueueAppend msg, MuUnlock]\<rparr>)"
  using assms
  by (auto simp: webhook_def accepted_def forward_or_queue_def disconnected_def Let_def
           split: option.splits)

lemma webhook_publishes:
  assumes "msgHandler (plug w) \<noteq> None" and "\<not> disconnected w" and "config (plug w) = Some c"
  shows "webhook (accepted msg) w =
    Inr ((200, ''status'', ''Message forwarded to MQTT and Gotify''),
         w\<lparr>trace := trace w @ [MuLock, IsConnected True,
              Publish (Topic c) (QoS c) (Retain c) (Message msg), MuUnlock]\<rparr>)"
  using assms
  by (auto simp: webhook_def accepted_def forward_or_queue_def disconnected_def Let_def
           forwardToMQTT_def split: option.splits)

text \<open>
  Accepted messages that arrive one after the other at a disconnected plugin all join the
  queue, and nothing is published.
\<close>

lemma run_accepted_queues:
  assumes "msgHandler (plug w) \<noteq> None" and "disconnected w"
  shows "\<exists>w1. run (map (\<lambda>m. CallWebhook (accepted m)) msgs) w = Inr w1
          \<and> plug w1 = (plug w)\<lparr>messageQueue := messageQueue (plug w) @ msgs\<rparr>
          \<and> published (trace w1) = published (trace w)"
  using assms
proof (induction msgs arbitrary: w)
  case Nil
  then show ?case by simp
next
  case (Cons m msgs)
  let ?w' = "w\<lparr>plug := (plug w)\<lparr>messageQueue := messageQueue (plug w) @ [m]\<rparr>,
            trace := trace w @ [MuLock]
              @ (case mqttClient (plug w) of None \<Rightarrow> [] | Some cl \<Rightarrow> [IsConnected False])
              @ [QueueAppend m, MuUnlock]\<rparr>"
  have step: "exec (CallWebhook (accepted m)) w = Inr ?w'"
    using Cons.prems by (simp add: exec_def webhook_queues)
  have "msgHandler (plug ?w') \<noteq> None" and "disconnected ?w'"
    using Cons.prems by (simp_all add: disconnected_def)
  from Cons.IH [OF this] obtain w1 where
    "run (map (\<lambda>m. CallWebhook (accepted m)) msgs) ?w' = Inr w1"
    "plug w1 = (plug ?w')\<lparr>messageQueue := messageQueue (plug ?w') @ msgs\<rparr>"
    "published (trace w1) = published (trace ?w')"
    by blast
  then show ?case using step by (cases "mqttClient (plug w)") simp_all
qed

lemma ready_simps [simp]:
  "config (plug ready) = Some DefaultConfig"
  "msgHandler (plug ready) = Some HostHandler"
  "mqttClient (plug ready) = None"
  "messageQueue (plug ready) = []"
  "lastError (plug ready) = None"
  "basePath (plug ready) = ''/plugin/1/custom/''"
  "trace ready = []"
  by (simp_all add: ready_def SetMessageHandler_def RegisterWebhook_def
        NewGotifyPluginInstance_def)

lemma online_eq:
  "online = ready\<lparr>plug := (plug ready)\<lparr>mqttClient :=
                Some \<lparr>options = NewClientOptions DefaultConfig, connected = True\<rparr>,
                messageQueue := []\<rparr>,
             trace := [Connect (NewClientOptions DefaultConfig) None, MuLock,
                       QueueReset, MuUnlock]\<rparr>"
  by (simp add: online_def Enable_success [of ready DefaultConfig])

lemma refused_eq:
  "refused = ready\<lparr>plug := (plug ready)\<lparr>mqttClient :=
                Some \<lparr>options = NewClientOptions DefaultConfig, connected = False\<rparr>,
                lastError := Some ''Failed to connect to MQTT Broker: connection refused''\<rparr>,
             trace := [Connect (NewClientOptions DefaultConfig) (Some ''connection refused'')]\<rparr>"
  by (simp add: refused_def Enable_failure [of ready DefaultConfig])

section \<open>Queueing while disconnected and draining on Enable\<close>

text \<open>
  Claim C1. Let the plugin have a configuration and a message handler, and let its client
  be nil or not connected. When accepted messages \<open>msgs\<close> arrive one after the other,
  the queue afterwards is the queue before followed by \<open>msgs\<close> in arrival order (so
  exactly \<open>msgs\<close> when it was empty), and nothing has been published. An \<^verbatim>\<open>Enable\<close>
  whose connect succeeds then returns nil, has called \<^verbatim>\<open>Publish\<close> once per queued
  message, in queue order, and leaves the queue empty.
\<close>

theorem queued_messages_drain_in_order:
  assumes "config (plug w) = Some c" and "msgHandler (plug w) \<noteq> None" and "disconnected w"
  shows "\<exists>w1 w2. run (map (\<lambda>m. CallWebhook (accepted m)) msgs) w = Inr w1
          \<and> messageQueue (plug w1) = messageQueue (plug w) @ msgs
          \<and> published (trace w1) = published (trace w)
          \<and> Enable None w1 = Inr (None, w2)
          \<and> published (trace w2) =
              published (trace w) @ map (pub_of c) (messageQueue (plug w) @ msgs)
          \<and> messageQueue (plug w2) = []"
proof -
  from run_accepted_queues [OF assms(2,3)] obtain w1 where
    r: "run (map (\<lambda>m. CallWebhook (accepted m)) msgs) w = Inr w1"
    and p: "plug w1 = (plug w)\<lparr>messageQueue := messageQueue (plug w) @ msgs\<rparr>"
    and t: "published (trace w1) = published (trace w)"
    by blast
  have c1: "config (plug w1) = Some c" using p assms(1) by simp
  show ?thesis
    using r p t Enable_success [OF c1] by (simp add: published_map_Publish)
qed

theorem queued_messages_drain_in_order_witness:
  "config (plug ready) = Some DefaultConfig \<and> msgHandler (plug ready) \<noteq> None
   \<and> disconnected ready
   \<and> (\<exists>w1 w2. run (map (\<lambda>m. CallWebhook (accepted m))
                     [text_message ''a'', text_message ''b'', text_message ''c'']) ready = Inr w1
          \<and> messageQueue (plug w1) = [text_message ''a'', text_message ''b'', text_message ''c'']
          \<and> published (trace w1) = []
          \<and> Enable None w1 = Inr (None, w2)
          \<and> published (trace w2) =
               [(''gotify/messages'', 0, False, ''a''), (''gotify/messages'', 0, False, ''b''),
                (''gotify/messages'', 0, False, ''c'')]
          \<and> messageQueue (plug w2) = [])"
proof -
  have h1: "config (plug ready) = Some DefaultConfig" by simp
  have h2: "msgHandler (plug ready) \<noteq> None" by simp
  have h3: "disconnected ready" by (simp add: disconnected_def)
  show ?thesis
    using queued_messages_drain_in_order
            [OF h1 h2 h3, of "[text_message ''a'', text_message ''b'', text_message ''c'']"] h3
    by (simp add: pub_of_def DefaultConfig_def text_message_def)
qed

section \<open>The decision taken for each message\<close>

text \<open>
  Claim C2. For a message that parses and that the hub accepts, the handler answers 200
  and does exactly one of two things between one \<^verbatim>\<open>Lock\<close> and the matching
  \<^verbatim>\<open>Unlock\<close> of the mutex. If the client is nil or reports that it is not connected, the
  message is appended to the queue and nothing is published. Otherwise the client is
  asked, answers that it is connected, and \<^verbatim>\<open>Publish\<close> is called once with the message
  while the queue and the rest of the plugin stay as they are. The query of the
  connection state and the chosen action are both inside that one locked region, as the
  trace shows. The second hypothesis holds in every state the operations reach: a client
  exists only after an \<^verbatim>\<open>Enable\<close>, which needs the configuration (see
  \<open>exec_client_needs_config\<close> below).
\<close>

theorem webhook_publish_or_queue:
  assumes "msgHandler (plug w) \<noteq> None"
    and "mqttClient (plug w) \<noteq> None \<longrightarrow> config (plug w) = Some c"
  shows "\<exists>w'. webhook (accepted msg) w =
            Inr ((200, ''status'', ''Message forwarded to MQTT and Gotify''), w')
          \<and> (if disconnected w
              then plug w' = (plug w)\<lparr>messageQueue := messageQueue (plug w) @ [msg]\<rparr>
                 \<and> trace w' = trace w @ [MuLock]
                      @ (case mqttClient (plug w) of None \<Rightarrow> [] | Some cl \<Rightarrow> [IsConnected False])
                      @ [QueueAppend msg, MuUnlock]
                 \<and> published (trace w') = published (trace w)
              else plug w' = plug w
                 \<and> trace w' = trace w @ [MuLock, IsConnected True,
                      Publish (Topic c) (QoS c) (Retain c) (Message msg), MuUnlock]
                 \<and> published (trace w') = published (trace w) @ [pub_of c msg])"
proof (cases "disconnected w")
  case True
  show ?thesis
    using webhook_queues [OF assms(1) True, of msg] True
    by (cases "mqttClient (plug w)") simp_all
next
  case False
  then have "mqttClient (plug w) \<noteq> None"
    by (auto simp: disconnected_def split: option.splits)
  with assms(2) have c: "config (plug w) = Some c" by simp
  show ?thesis
    using webhook_publishes [OF assms(1) False c, of msg] False
    by (simp add: pub_of_def)
qed

theorem webhook_publish_or_queue_witness:
  "msgHandler (plug online) \<noteq> None
   \<and> mqttClient (plug online) \<noteq> None \<and> config (plug online) = Some DefaultConfig
   \<and> \<not> disconnected online
   \<and> (\<exists>w'. webhook (accepted (text_message ''a'')) online =
            Inr ((200, ''status'', ''Message forwarded to MQTT and Gotify''), w')
          \<and> plug w' = plug online
          \<and> trace w' = trace online @ [MuLock, IsConnected True,
                      Publish ''gotify/messages'' 0 False ''a'', MuUnlock]
          \<and> published (trace w') =
              published (trace online) @ [(''gotify/messages'', 0, False, ''a'')])
   \<and> msgHandler (plug refused) \<noteq> None
   \<and> mqttClient (plug refused) \<noteq> None \<and> config (plug refused) = Some DefaultConfig
   \<and> disconnected refused
   \<and> (\<exists>w'. webhook (accepted (text_message ''a'')) refused =
            Inr ((200, ''status'', ''Message forwarded to MQTT and Gotify''), w')
          \<and> plug w' = (plug refused)\<lparr>messageQueue := [text_message ''a'']\<rparr>
          \<and> trace w' = trace refused
               @ [MuLock, IsConnected False, QueueAppend (text_message ''a''), MuUnlock]
          \<and> published (trace w') = published (trace refused))"
proof -
  have h1: "msgHandler (plug online) \<noteq> None" by (simp add: online_eq)
  have h2: "mqttClient (plug online) \<noteq> None \<longrightarrow> config (plug online) = Some DefaultConfig"
    by (simp add: online_eq)
  have h3: "\<not> disconnected online" by (simp add: online_eq disconnected_def)
  have k1: "msgHandler (plug refused) \<noteq> None" by (simp add: refused_eq)
  have k2: "mqttClient (plug refused) \<noteq> None \<longrightarrow> config (plug refused) = Some DefaultConfig"
    by (simp add: refused_eq)
  have k3: "disconnected refused" by (simp add: refused_eq disconnected_def)
  have k4: "mqttClient (plug refused) \<noteq> None" "config (plug refused) = Some DefaultConfig"
    "messageQueue (plug refused) = []"
    by (simp_all add: refused_eq)
  have a: "\<exists>w'. webhook (accepted (text_message ''a'')) online =
            Inr ((200, ''status'', ''Message forwarded to MQTT and Gotify''), w')
          \<and> plug w' = plug online
          \<and> trace w' = trace online @ [MuLock, IsConnected True,
                      Publish ''gotify/messages'' 0 False ''a'', MuUnlock]
          \<and> published (trace w') =
              published (trace online) @ [(''gotify/messages'', 0, False, ''a'')]"
    using webhook_publish_or_queue [OF h1 h2, of "text_message ''a''"] h3
    by (simp add: pub_of_def DefaultConfig_def text_message_def)
  have b: "\<exists>w'. webhook (accepted (text_message ''a'')) refused =
            Inr ((200, ''status'', ''Message forwarded to MQTT and Gotify''), w')
          \<and> plug w' = (plug refused)\<lparr>messageQueue := [text_message ''a'']\<rparr>
          \<and> trace w' = trace refused
               @ [MuLock, IsConnected False, QueueAppend (text_message ''a''), MuUnlock]
          \<and> published (trace w') = published (trace refused)"
    using webhook_publish_or_queue [OF k1 k2, of "text_message ''a''"] k3 k4
    by (auto split: option.splits)
  show ?thesis
    using h1 h3 k1 k3 k4 a b by (simp add: online_eq)
qed

section \<open>Failed delivery to the hub\<close>

text \<open>
  Claim C3. When the body parses and \<^verbatim>\<open>SendMessage\<close> returns an error, the handler
  answers 500 and returns at once: the plugin (queue included) and the trace are what they
  were, so the message is neither queued nor published and the mutex is not even taken.
\<close>

theorem delivery_failure_skips_forwarding:
  assumes "body req = Some msg" and "delivery req = Some e" and "msgHandler (plug w) \<noteq> None"
  shows "webhook req w = Inr ((500, ''error'', ''Failed to send message to Gotify''), w)"
  using assms by (auto simp: webhook_def)

theorem delivery_failure_skips_forwarding_witness:
  "body \<lparr>body = Some (text_message ''a''), delivery = Some ''database is locked''\<rparr>
     = Some (text_message ''a'')
   \<and> delivery \<lparr>body = Some (text_message ''a''), delivery = Some ''database is locked''\<rparr>
     = Some ''database is locked''
   \<and> msgHandler (plug online) \<noteq> None
   \<and> webhook \<lparr>body = Some (text_message ''a''), delivery = Some ''database is locked''\<rparr> online =
       Inr ((500, ''error'', ''Failed to send message to Gotify''), online)"
proof -
  have h3: "msgHandler (plug online) \<noteq> None" by (simp add: online_eq)
  show ?thesis
    using delivery_failure_skips_forwarding
      [of "\<lparr>body = Some (text_message ''a''), delivery = Some ''database is locked''\<rparr>"
          "text_message ''a''" "''database is locked''" online] h3
    by simp
qed

section \<open>Lifecycle calls and the queue\<close>

lemma exec_Enable_success:
  assumes "config (plug w) = Some c"
  shows "exec (CallEnable None) w =
    Inr (w\<lparr>plug := (plug w)\<lparr>mqttClient :=
                      Some \<lparr>options = NewClientOptions c, connected = True\<rparr>,
                    messageQueue := []\<rparr>,
            trace := trace w @ [Connect (NewClientOptions c) None, MuLock]
              @ map (\<lambda>m. Publish (Topic c) (QoS c) (Retain c) (Message m))
                    (messageQueue (plug w))
              @ [QueueReset, MuUnlock]\<rparr>)"
  by (simp add: exec_def Enable_success [OF assms])

lemma exec_Enable_failure:
  assumes "config (plug w) = Some c"
  shows "exec (CallEnable (Some e)) w =
    Inr (w\<lparr>plug := (plug w)\<lparr>mqttClient :=
                      Some \<lparr>options = NewClientOptions c, connected = False\<rparr>,
                    lastError := Some (''Failed to connect to MQTT Broker: '' @ e)\<rparr>,
            trace := trace w @ [Connect (NewClientOptions c) (Some e)]\<rparr>)"
  by (simp add: exec_def Enable_failure [OF assms])

lemma exec_Disable:
  assumes "mqttClient (plug w) = Some cl"
  shows "exec CallDisable w =
    Inr (w\<lparr>plug := (plug w)\<lparr>mqttClient := Some (cl\<lparr>connected := False\<rparr>)\<rparr>,
           trace := trace w @ [Disconnect 250]\<rparr>)"
  using assms by (simp add: exec_def Disable_def)

lemma backlog_simps:
  "config (plug backlog) = Some DefaultConfig"
  "mqttClient (plug backlog) =
     Some \<lparr>options = NewClientOptions DefaultConfig, connected = False\<rparr>"
  "messageQueue (plug backlog) = [text_message ''a'', text_message ''b'', text_message ''c'']"
  "published (trace backlog) = []"
proof -
  have "msgHandler (plug refused) \<noteq> None" and "disconnected refused"
    by (simp_all add: refused_eq disconnected_def)
  from run_accepted_queues
         [OF this, of "[text_message ''a'', text_message ''b'', text_message ''c'']"]
  obtain w1 where
    r: "run (map (\<lambda>m. CallWebhook (accepted m))
               [text_message ''a'', text_message ''b'', text_message ''c'']) refused = Inr w1"
    and p: "plug w1 = (plug refused)\<lparr>messageQueue := messageQueue (plug refused)
              @ [text_message ''a'', text_message ''b'', text_message ''c'']\<rparr>"
    and t: "published (trace w1) = published (trace refused)"
    by blast
  have b: "backlog = w1" using r by (simp add: backlog_def)
  show "config (plug backlog) = Some DefaultConfig"
    "mqttClient (plug backlog) =
       Some \<lparr>options = NewClientOptions DefaultConfig, connected = False\<rparr>"
    "messageQueue (plug backlog) = [text_message ''a'', text_message ''b'', text_message ''c'']"
    "published (trace backlog) = []"
    using p t unfolding b by (simp_all add: refused_eq)
qed

text \<open>
  Claim C4. Take a plugin with a configuration and any sequence \<open>cs\<close> of \<^verbatim>\<open>Enable\<close>
  and \<^verbatim>\<open>Disable\<close> calls, the connects failing or succeeding in any pattern, in which
  \<^verbatim>\<open>Disable\<close> is not called on a nil client. The run completes, and the \<^verbatim>\<open>Publish\<close>
  calls it adds are: none when no connect succeeds, and otherwise one call per message of
  the queue, in queue order. So a queued message is published at most once over the whole
  sequence: the first successful \<^verbatim>\<open>Enable\<close> publishes it and resets the queue, and the
  later ones find the queue empty.
\<close>

theorem queued_message_published_at_most_once:
  assumes "config (plug w) = Some c" and "list_all is_lifecycle cs"
    and "mqttClient (plug w) \<noteq> None \<or> take 1 cs \<noteq> [CallDisable]"
  shows "\<exists>w'. run cs w = Inr w'
          \<and> published (trace w') = published (trace w)
               @ (if CallEnable None \<in> set cs
                  then map (pub_of c) (messageQueue (plug w)) else [])
          \<and> messageQueue (plug w') =
               (if CallEnable None \<in> set cs then [] else messageQueue (plug w))"
  using assms
proof (induction cs arbitrary: w)
  case Nil
  then show ?case by simp
next
  case (Cons x cs)
  show ?case
  proof (cases x)
    case (CallEnable conn)
    show ?thesis
    proof (cases conn)
      case None
      let ?w1 = "w\<lparr>plug := (plug w)\<lparr>mqttClient :=
                      Some \<lparr>options = NewClientOptions c, connected = True\<rparr>,
                    messageQueue := []\<rparr>,
            trace := trace w @ [Connect (NewClientOptions c) None, MuLock]
              @ map (\<lambda>m. Publish (Topic c) (QoS c) (Retain c) (Message m))
                    (messageQueue (plug w))
              @ [QueueReset, MuUnlock]\<rparr>"
      have step: "exec x w = Inr ?w1"
        using CallEnable None exec_Enable_success [OF Cons.prems(1)] by simp
      have "config (plug ?w1) = Some c" using Cons.prems(1) by simp
      moreover have "list_all is_lifecycle cs" using Cons.prems(2) by simp
      moreover have "mqttClient (plug ?w1) \<noteq> None \<or> take 1 cs \<noteq> [CallDisable]" by simp
      ultimately obtain w' where
        "run cs ?w1 = Inr w'"
        "published (trace w') = published (trace ?w1)
           @ (if CallEnable None \<in> set cs
              then map (pub_of c) (messageQueue (plug ?w1)) else [])"
        "messageQueue (plug w') =
           (if CallEnable None \<in> set cs then [] else messageQueue (plug ?w1))"
        using Cons.IH [of ?w1] by blast
      then show ?thesis
        using step CallEnable None by (simp add: published_map_Publish)
    next
      case (Some e)
      let ?w1 = "w\<lparr>plug := (plug w)\<lparr>mqttClient :=
                      Some \<lparr>options = NewClientOptions c, connected = False\<rparr>,
                    lastError := Some (''Failed to connect to MQTT Broker: '' @ e)\<rparr>,
            trace := trace w @ [Connect (NewClientOptions c) (Some e)]\<rparr>"
      have step: "exec x w = Inr ?w1"
        using CallEnable Some exec_Enable_failure [OF Cons.prems(1)] by simp
      have "config (plug ?w1) = Some c" using Cons.prems(1) by simp
      moreover have "list_all is_lifecycle cs" using Cons.prems(2) by simp
      moreover have "mqttClient (plug ?w1) \<noteq> None \<or> take 1 cs \<noteq> [CallDisable]" by simp
      ultimately obtain w' where
        "run cs ?w1 = Inr w'"
        "published (trace w') = published (trace ?w1)
           @ (if CallEnable None \<in> set cs
              then map (pub_of c) (messageQueue (plug ?w1)) else [])"
        "messageQueue (plug w') =
           (if CallEnable None \<in> set cs then [] else messageQueue (plug ?w1))"
        using Cons.IH [of ?w1] by blast
      then show ?thesis
        using step CallEnable Some by simp
    qed
  next
    case CallDisable
    with Cons.prems(3) obtain cl where cl: "mqttClient (plug w) = Some cl" by auto
    let ?w1 = "w\<lparr>plug := (plug w)\<lparr>mqttClient := Some (cl\<lparr>connected := False\<rparr>)\<rparr>,
           trace := trace w @ [Disconnect 250]\<rparr>"
    have step: "exec x w = Inr ?w1"
      using CallDisable exec_Disable [OF cl] by simp
    have "config (plug ?w1) = Some c" using Cons.prems(1) by simp
    moreover have "list_all is_lifecycle cs" using Cons.prems(2) by simp
    moreover have "mqttClient (plug ?w1) \<noteq> None \<or> take 1 cs \<noteq> [CallDisable]" by simp
    ultimately obtain w' where
      "run cs ?w1 = Inr w'"
      "published (trace w') = published (trace ?w1)
         @ (if CallEnable None \<in> set cs
            then map (pub_of c) (messageQueue (plug ?w1)) else [])"
      "messageQueue (plug w') =
         (if CallEnable None \<in> set cs then [] else messageQueue (plug ?w1))"
      using Cons.IH [of ?w1] by blast
    then show ?thesis
      using step CallDisable by simp
  next
    case (CallWebhook req)
    with Cons.prems(2) show ?thesis by (simp add: is_lifecycle_def)
  qed
qed

theorem queued_message_published_at_most_once_witness:
  "config (plug backlog) = Some DefaultConfig
   \<and> list_all is_lifecycle [CallDisable, CallEnable (Some ''timeout''), CallEnable None,
         CallDisable, CallEnable None, CallEnable None]
   \<and> mqttClient (plug backlog) \<noteq> None
   \<and> (\<exists>w'. run [CallDisable, CallEnable (Some ''timeout''), CallEnable None,
         CallDisable, CallEnable None, CallEnable None] backlog = Inr w'
        \<and> published (trace w') =
               [(''gotify/messages'', 0, False, ''a''), (''gotify/messages'', 0, False, ''b''),
                (''gotify/messages'', 0, False, ''c'')]
        \<and> messageQueue (plug w') = [])"
proof -
  have h2: "list_all is_lifecycle [CallDisable, CallEnable (Some ''timeout''), CallEnable None,
         CallDisable, CallEnable None, CallEnable None]"
    by (simp add: is_lifecycle_def)
  have h3: "mqttClient (plug backlog) \<noteq> None
        \<or> take 1 [CallDisable, CallEnable (Some ''timeout''), CallEnable None,
         CallDisable, CallEnable None, CallEnable None] \<noteq> [CallDisable]"
    by (simp add: backlog_simps)
  show ?thesis
    using queued_message_published_at_most_once [OF backlog_simps(1) h2 h3] h2 backlog_simps
    by (simp add: pub_of_def DefaultConfig_def text_message_def)
qed

section \<open>Invariants of runs\<close>

lemma forwardToMQTT_plug: "forwardToMQTT m w = Inr w' \<Longrightarrow> plug w' = plug w"
  by (auto simp: forwardToMQTT_def split: option.splits)

lemma resend_plug: "resend msgs w = Inr w' \<Longrightarrow> plug w' = plug w"
proof (induction msgs arbitrary: w)
  case Nil
  then show ?case by simp
next
  case (Cons m msgs)
  then show ?case
    by (auto split: sum.splits dest: forwardToMQTT_plug)
qed

lemma exec_config: "exec x w = Inr w' \<Longrightarrow> config (plug w') = config (plug w)"
  by (cases x)
     (auto simp: exec_def Enable_def Disable_def webhook_def forward_or_queue_def Let_def
        split: option.splits sum.splits if_splits dest!: resend_plug forwardToMQTT_plug)

text \<open>
  A client exists only where a configuration is installed: the property holds of a new
  instance, and every operation that returns keeps it.
\<close>

lemma fresh_client_needs_config:
  "mqttClient (plug fresh) \<noteq> None \<longrightarrow> config (plug fresh) \<noteq> None"
  by (simp add: fresh_def NewGotifyPluginInstance_def)

lemma exec_client_needs_config:
  assumes "exec x w = Inr w'" and "mqttClient (plug w) \<noteq> None \<longrightarrow> config (plug w) \<noteq> None"
  shows "mqttClient (plug w') \<noteq> None \<longrightarrow> config (plug w') \<noteq> None"
  using assms
  by (cases x)
     (auto simp: exec_def Enable_def Disable_def webhook_def forward_or_queue_def Let_def
        split: option.splits sum.splits if_splits dest!: resend_plug forwardToMQTT_plug)

lemma ValidateAndSetConfig_client_needs_config:
  assumes "ValidateAndSetConfig v6 conf p = Inr (r, p')"
    and "mqttClient p \<noteq> None \<longrightarrow> config p \<noteq> None"
  shows "mqttClient p' \<noteq> None \<longrightarrow> config p' \<noteq> None"
  using assms
  by (auto simp: ValidateAndSetConfig_def split: iface.splits option.splits if_splits)

text \<open>
  Over any run that completes, the publish calls made and the messages still queued
  together are those of the start plus one for every message handed to the forwarding
  step: no message is published twice and none disappears from the queue unpublished.
\<close>

lemma exec_conserves:
  assumes "exec x w = Inr w'" and "config (plug w) = Some c"
  shows "mset (published (trace w')) + mset (map (pub_of c) (messageQueue (plug w')))
       = mset (published (trace w)) + mset (map (pub_of c) (messageQueue (plug w)))
         + mset (map (pub_of c) (accepted_by x))"
proof (cases x)
  case (CallEnable conn)
  then show ?thesis using assms
    by (cases conn) (auto simp: exec_Enable_success exec_Enable_failure published_map_Publish)
next
  case CallDisable
  then show ?thesis using assms
    by (auto simp: exec_def Disable_def split: option.splits)
next
  case (CallWebhook req)
  then show ?thesis using assms
    by (auto simp: exec_def webhook_def forward_or_queue_def forwardToMQTT_def Let_def
          pub_of_def
        split: option.splits sum.splits if_splits)
qed

lemma run_conserves:
  assumes "run cs w = Inr w'" and "config (plug w) = Some c"
  shows "mset (published (trace w')) + mset (map (pub_of c) (messageQueue (plug w')))
       = mset (published (trace w)) + mset (map (pub_of c) (messageQueue (plug w)))
         + mset (map (pub_of c) (concat (map accepted_by cs)))"
  using assms
proof (induction cs arbitrary: w)
  case Nil
  then show ?case by simp
next
  case (Cons x cs)
  from Cons.prems(1) obtain w1 where s: "exec x w = Inr w1" and r: "run cs w1 = Inr w'"
    by (auto split: sum.splits)
  have c1: "config (plug w1) = Some c" using exec_config [OF s] Cons.prems(2) by simp
  show ?case
    using Cons.IH [OF r c1] exec_conserves [OF s Cons.prems(2)] by (simp add: ac_simps)
qed

section \<open>Validation of the configuration\<close>

lemma ParseIP_examples:
  "\<not> ParseIP v6 ''999.999.999.999''" "ParseIP v6 ''10.0.0.5''" "ParseIP v6 ''127.0.0.1''"
  by (simp_all add: ParseIP_def parseIPv4_def octet_ok_def is_digit_def dec_value_def)

lemma fmt_d_examples: "fmt_d 70000 = ''70000''" "fmt_d (- 1) = ''-1''"
  by (simp_all add: fmt_d_def fmt_nat.simps)

text \<open>
  Claim C5. Given a configuration \<open>c\<close>, \<^verbatim>\<open>ValidateAndSetConfig\<close> returns an error and
  leaves the plugin, and with it the installed configuration, as it was when the address
  does not parse, the port is outside 1..65535 or the keep-alive is negative; when all
  three conditions hold it returns nil and installs \<open>c\<close>. Whatever the other fields are:
  address 999.999.999.999 with port 1883 is rejected, address 10.0.0.5 with port 70000 is
  rejected, address 10.0.0.5 with port 1883 and keep-alive -1 is rejected, and address
  10.0.0.5 with port 1883 and keep-alive 60 is accepted.
\<close>

theorem ValidateAndSetConfig_checks:
  "(\<not> ParseIP v6 (IP c) \<or> Port c < 1 \<or> 65535 < Port c \<or> KeepAlive c < 0 \<longrightarrow>
      (\<exists>e. ValidateAndSetConfig v6 (IfaceConfig (Some c)) p = Inr (Some e, p)))
   \<and> (ParseIP v6 (IP c) \<and> 1 \<le> Port c \<and> Port c \<le> 65535 \<and> 0 \<le> KeepAlive c \<longrightarrow>
      ValidateAndSetConfig v6 (IfaceConfig (Some c)) p = Inr (None, p\<lparr>config := Some c\<rparr>))
   \<and> ValidateAndSetConfig v6
        (IfaceConfig (Some (c\<lparr>IP := ''999.999.999.999'', Port := 1883\<rparr>))) p
        = Inr (Some ''invalid IP address: 999.999.999.999'', p)
   \<and> ValidateAndSetConfig v6 (IfaceConfig (Some (c\<lparr>IP := ''10.0.0.5'', Port := 70000\<rparr>))) p
        = Inr (Some ''port out of range: 70000'', p)
   \<and> ValidateAndSetConfig v6
        (IfaceConfig (Some (c\<lparr>IP := ''10.0.0.5'', Port := 1883, KeepAlive := - 1\<rparr>))) p
        = Inr (Some ''invalid KeepAlive value: -1'', p)
   \<and> ValidateAndSetConfig v6
        (IfaceConfig (Some (c\<lparr>IP := ''10.0.0.5'', Port := 1883, KeepAlive := 60\<rparr>))) p
        = Inr (None, p\<lparr>config := Some (c\<lparr>IP := ''10.0.0.5'', Port := 1883, KeepAlive := 60\<rparr>)\<rparr>)"
proof -
  let ?V = "ValidateAndSetConfig v6"
  have rejected: "\<exists>e. ?V (IfaceConfig (Some c)) p = Inr (Some e, p)"
    if "\<not> ParseIP v6 (IP c) \<or> Port c < 1 \<or> 65535 < Port c \<or> KeepAlive c < 0"
    using that by (auto simp: ValidateAndSetConfig_def)
  have installed: "?V (IfaceConfig (Some c)) p = Inr (None, p\<lparr>config := Some c\<rparr>)"
    if "ParseIP v6 (IP c) \<and> 1 \<le> Port c \<and> Port c \<le> 65535 \<and> 0 \<le> KeepAlive c"
    using that by (auto simp: ValidateAndSetConfig_def)
  have bad_ip: "?V (IfaceConfig (Some (c\<lparr>IP := ''999.999.999.999'', Port := 1883\<rparr>))) p
        = Inr (Some ''invalid IP address: 999.999.999.999'', p)"
    by (simp add: ValidateAndSetConfig_def ParseIP_examples)
  have bad_port: "?V (IfaceConfig (Some (c\<lparr>IP := ''10.0.0.5'', Port := 70000\<rparr>))) p
        = Inr (Some ''port out of range: 70000'', p)"
    by (simp add: ValidateAndSetConfig_def ParseIP_examples fmt_d_examples)
  have bad_keepalive:
    "?V (IfaceConfig (Some (c\<lparr>IP := ''10.0.0.5'', Port := 1883, KeepAlive := - 1\<rparr>))) p
        = Inr (Some ''invalid KeepAlive value: -1'', p)"
    by (simp add: ValidateAndSetConfig_def ParseIP_examples fmt_d_examples)
  have good:
    "?V (IfaceConfig (Some (c\<lparr>IP := ''10.0.0.5'', Port := 1883, KeepAlive := 60\<rparr>))) p
        = Inr (None, p\<lparr>config := Some (c\<lparr>IP := ''10.0.0.5'', Port := 1883, KeepAlive := 60\<rparr>)\<rparr>)"
    by (simp add: ValidateAndSetConfig_def ParseIP_examples)
  from rejected installed bad_ip bad_port bad_keepalive good show ?thesis by blast
qed

theorem ValidateAndSetConfig_checks_witness:
  "(65535 < Port (DefaultConfig\<lparr>Port := 65536\<rparr>)
    \<and> (\<exists>e. ValidateAndSetConfig (\<lambda>s. False)
             (IfaceConfig (Some (DefaultConfig\<lparr>Port := 65536\<rparr>))) (plug online)
           = Inr (Some e, plug online)))
   \<and> (ParseIP (\<lambda>s. False) (IP (DefaultConfig\<lparr>Port := 65535\<rparr>))
      \<and> 1 \<le> Port (DefaultConfig\<lparr>Port := 65535\<rparr>)
      \<and> Port (DefaultConfig\<lparr>Port := 65535\<rparr>) \<le> 65535
      \<and> 0 \<le> KeepAlive (DefaultConfig\<lparr>Port := 65535\<rparr>)
      \<and> ValidateAndSetConfig (\<lambda>s. False)
             (IfaceConfig (Some (DefaultConfig\<lparr>Port := 65535\<rparr>))) (plug online)
           = Inr (None, (plug online)\<lparr>config := Some (DefaultConfig\<lparr>Port := 65535\<rparr>)\<rparr>))"
proof -
  have a: "65535 < Port (DefaultConfig\<lparr>Port := 65536\<rparr>)" by simp
  have b: "ParseIP (\<lambda>s. False) (IP (DefaultConfig\<lparr>Port := 65535\<rparr>))
      \<and> 1 \<le> Port (DefaultConfig\<lparr>Port := 65535\<rparr>)
      \<and> Port (DefaultConfig\<lparr>Port := 65535\<rparr>) \<le> 65535
      \<and> 0 \<le> KeepAlive (DefaultConfig\<lparr>Port := 65535\<rparr>)"
    by (simp add: DefaultConfig_def ParseIP_examples)
  show ?thesis
    using a b
      ValidateAndSetConfig_checks [of "\<lambda>s. False" "DefaultConfig\<lparr>Port := 65536\<rparr>" "plug online"]
      ValidateAndSetConfig_checks [of "\<lambda>s. False" "DefaultConfig\<lparr>Port := 65535\<rparr>" "plug online"]
    by blast
qed

section \<open>The last error\<close>

text \<open>
  Against claim C6: the first \<^verbatim>\<open>Enable\<close> on \<open>ready\<close> fails and stores its error; the
  second \<^verbatim>\<open>Enable\<close> succeeds and returns nil, and the stored error is still there
  afterwards, so the display still begins with it.
\<close>

theorem enable_success_keeps_last_error:
  "Enable (Some ''connection refused'') ready
     = Inr (Some ''Failed to connect to MQTT Broker: connection refused'', refused)
   \<and> map_sum id (map_prod id (lastError \<circ> plug)) (Enable None refused)
     = Inr (None, Some ''Failed to connect to MQTT Broker: connection refused'')
   \<and> map_sum id (map_prod id (GetDisplay (Some ''http://hub'') \<circ> plug)) (Enable None refused)
     = Inr (None, Inr (''Error: Failed to connect to MQTT Broker: connection refused''
          @ [CHR 0x0A, CHR 0x0A]
          @ ''Send messages to http://hub/plugin/1/custom/message to forward them to MQTT.''))"
proof -
  have c: "config (plug refused) = Some DefaultConfig" by (simp add: refused_eq)
  have f: "Enable (Some ''connection refused'') ready
     = Inr (Some ''Failed to connect to MQTT Broker: connection refused'', refused)"
    by (simp add: Enable_failure [of ready DefaultConfig] refused_eq)
  have l: "lastError (plug refused)
             = Some ''Failed to connect to MQTT Broker: connection refused''"
    and b: "basePath (plug refused) = ''/plugin/1/custom/''"
    by (simp_all add: refused_eq)
  show ?thesis
    using f l b by (simp add: Enable_success [OF c] GetDisplay_def usage_def)
qed

text \<open>
  Claim C6 as amended. With a configuration installed, an \<^verbatim>\<open>Enable\<close> whose connect
  fails overwrites the last error with the new failure and returns it. An \<^verbatim>\<open>Enable\<close>
  whose connect succeeds while no last error is stored leaves none stored, and the display
  is then the usage instructions alone.
\<close>

theorem last_error_after_enable:
  assumes "config (plug w) = Some c"
  shows "(\<exists>w'. Enable (Some e) w = Inr (Some (''Failed to connect to MQTT Broker: '' @ e), w')
            \<and> lastError (plug w') = Some (''Failed to connect to MQTT Broker: '' @ e))
       \<and> (lastError (plug w) = None \<longrightarrow>
            (\<exists>w'. Enable None w = Inr (None, w') \<and> lastError (plug w') = None
               \<and> GetDisplay (Some loc) (plug w') = Inr (usage loc (basePath (plug w)))))"
proof -
  let ?err = "''Failed to connect to MQTT Broker: '' @ e"
  have failing: "\<exists>w'. Enable (Some e) w = Inr (Some ?err, w') \<and> lastError (plug w') = Some ?err"
    by (simp add: Enable_failure [OF assms])
  have succeeding: "\<exists>w'. Enable None w = Inr (None, w') \<and> lastError (plug w') = None
               \<and> GetDisplay (Some loc) (plug w') = Inr (usage loc (basePath (plug w)))"
    if "lastError (plug w) = None"
    using that by (simp add: Enable_success [OF assms] GetDisplay_def)
  from failing succeeding show ?thesis by blast
qed

theorem last_error_after_enable_witness:
  "config (plug refused) = Some DefaultConfig
   \<and> (\<exists>w'. Enable (Some ''timeout'') refused
              = Inr (Some ''Failed to connect to MQTT Broker: timeout'', w')
            \<and> lastError (plug w') = Some ''Failed to connect to MQTT Broker: timeout'')
   \<and> config (plug ready) = Some DefaultConfig \<and> lastError (plug ready) = None
   \<and> (\<exists>w'. Enable None ready = Inr (None, w') \<and> lastError (plug w') = None
         \<and> GetDisplay (Some ''http://hub'') (plug w')
            = Inr ''Send messages to http://hub/plugin/1/custom/message to forward them to MQTT.'')"
proof -
  have c1: "config (plug refused) = Some DefaultConfig" by (simp add: refused_eq)
  have c2: "config (plug ready) = Some DefaultConfig" by simp
  have e: "lastError (plug ready) = None" by simp
  show ?thesis
    using c1 c2 e last_error_after_enable [OF c1, of "''timeout''"]
      last_error_after_enable [OF c2, of _ "''http://hub''"]
    by (simp add: usage_def)
qed

section \<open>A failed connect\<close>

text \<open>
  Claim C7. With a configuration installed, an \<^verbatim>\<open>Enable\<close> whose connect fails with
  \<open>e\<close> returns the error "Failed to connect to MQTT Broker: e", which is not empty, and
  stores it as the last error. The plugin holds no lifecycle flag of its own; what stays in
  place is the client made by this attempt, which is not connected, while the queue and
  the publish calls are as before. Every accepted message that arrives afterwards, until
  the next lifecycle call, joins the queue in arrival order and none is published.
\<close>

theorem failed_enable_then_messages_queue:
  assumes "config (plug w) = Some c" and "msgHandler (plug w) \<noteq> None"
  shows "\<exists>w1 w2. Enable (Some e) w = Inr (Some (''Failed to connect to MQTT Broker: '' @ e), w1)
          \<and> ''Failed to connect to MQTT Broker: '' @ e \<noteq> []
          \<and> lastError (plug w1) = Some (''Failed to connect to MQTT Broker: '' @ e)
          \<and> mqttClient (plug w1) = Some \<lparr>options = NewClientOptions c, connected = False\<rparr>
          \<and> messageQueue (plug w1) = messageQueue (plug w)
          \<and> published (trace w1) = published (trace w)
          \<and> run (map (\<lambda>m. CallWebhook (accepted m)) msgs) w1 = Inr w2
          \<and> messageQueue (plug w2) = messageQueue (plug w) @ msgs
          \<and> published (trace w2) = published (trace w)"
proof -
  let ?err = "''Failed to connect to MQTT Broker: '' @ e"
  let ?w1 = "w\<lparr>plug := (plug w)\<lparr>mqttClient :=
                      Some \<lparr>options = NewClientOptions c, connected = False\<rparr>,
                    lastError := Some ?err\<rparr>,
            trace := trace w @ [Connect (NewClientOptions c) (Some e)]\<rparr>"
  have en: "Enable (Some e) w = Inr (Some ?err, ?w1)"
    by (rule Enable_failure [OF assms(1)])
  have "msgHandler (plug ?w1) \<noteq> None" and "disconnected ?w1"
    using assms(2) by (simp_all add: disconnected_def)
  from run_accepted_queues [OF this, of msgs] obtain w2 where
    "run (map (\<lambda>m. CallWebhook (accepted m)) msgs) ?w1 = Inr w2"
    "plug w2 = (plug ?w1)\<lparr>messageQueue := messageQueue (plug ?w1) @ msgs\<rparr>"
    "published (trace w2) = published (trace ?w1)"
    by blast
  then show ?thesis using en by simp
qed

theorem failed_enable_then_messages_queue_witness:
  "config (plug ready) = Some DefaultConfig \<and> msgHandler (plug ready) \<noteq> None
   \<and> (\<exists>w1 w2. Enable (Some ''connection refused'') ready
              = Inr (Some ''Failed to connect to MQTT Broker: connection refused'', w1)
          \<and> lastError (plug w1) = Some ''Failed to connect to MQTT Broker: connection refused''
          \<and> mqttClient (plug w1) =
               Some \<lparr>options = NewClientOptions DefaultConfig, connected = False\<rparr>
          \<and> messageQueue (plug w1) = []
          \<and> published (trace w1) = []
          \<and> run (map (\<lambda>m. CallWebhook (accepted m))
                   [text_message ''a'', text_message ''b'']) w1 = Inr w2
          \<and> messageQueue (plug w2) = [text_message ''a'', text_message ''b'']
          \<and> published (trace w2) = [])"
proof -
  have h1: "config (plug ready) = Some DefaultConfig" by simp
  have h2: "msgHandler (plug ready) \<noteq> None" by simp
  show ?thesis
    using failed_enable_then_messages_queue
      [OF h1 h2, of "''connection refused''" "[text_message ''a'', text_message ''b'']"]
    by simp
qed

section \<open>Disable and the queue\<close>

text \<open>
  Claim C8. On a plugin with a configuration and a client, \<^verbatim>\<open>Disable\<close> returns nil and
  leaves the queue and the publish calls as they were. An \<^verbatim>\<open>Enable\<close> whose connect
  succeeds then publishes exactly the queued messages, one call each in queue order, and
  leaves the queue empty.
\<close>

theorem disable_keeps_queue:
  assumes "config (plug w) = Some c" and "mqttClient (plug w) = Some cl"
  shows "\<exists>w1 w2. Disable w = Inr (None, w1)
          \<and> messageQueue (plug w1) = messageQueue (plug w)
          \<and> published (trace w1) = published (trace w)
          \<and> Enable None w1 = Inr (None, w2)
          \<and> published (trace w2) = published (trace w) @ map (pub_of c) (messageQueue (plug w))
          \<and> messageQueue (plug w2) = []"
proof -
  let ?w1 = "w\<lparr>plug := (plug w)\<lparr>mqttClient := Some (cl\<lparr>connected := False\<rparr>)\<rparr>,
               trace := trace w @ [Disconnect 250]\<rparr>"
  have d: "Disable w = Inr (None, ?w1)" using assms(2) by (simp add: Disable_def)
  have c1: "config (plug ?w1) = Some c" using assms(1) by simp
  show ?thesis
    using d Enable_success [OF c1] by (simp add: published_map_Publish)
qed

theorem disable_keeps_queue_witness:
  "config (plug backlog) = Some DefaultConfig
   \<and> mqttClient (plug backlog) =
       Some \<lparr>options = NewClientOptions DefaultConfig, connected = False\<rparr>
   \<and> (\<exists>w1 w2. Disable backlog = Inr (None, w1)
          \<and> messageQueue (plug w1) = [text_message ''a'', text_message ''b'', text_message ''c'']
          \<and> published (trace w1) = []
          \<and> Enable None w1 = Inr (None, w2)
          \<and> published (trace w2) =
               [(''gotify/messages'', 0, False, ''a''), (''gotify/messages'', 0, False, ''b''),
                (''gotify/messages'', 0, False, ''c'')]
          \<and> messageQueue (plug w2) = [])"
  using disable_keeps_queue [OF backlog_simps(1,2)] backlog_simps
  by (simp add: pub_of_def DefaultConfig_def text_message_def)

section \<open>Panics\<close>

text \<open>
  Against claim C9: \<^verbatim>\<open>Disable\<close> on a new instance calls \<^verbatim>\<open>Disconnect\<close> on the nil
  client and panics, although the webhook handler tests the same field against nil before
  it uses it (line 116). \<^verbatim>\<open>Enable\<close> on a new instance reads the nil configuration and
  panics, and \<^verbatim>\<open>ValidateAndSetConfig\<close> panics in the type assertion of line 155 on
  nil and on a value of another type.
\<close>

theorem operations_that_panic:
  "Disable fresh = Inl NilPointerPanic
   \<and> Enable conn fresh = Inl NilPointerPanic
   \<and> ValidateAndSetConfig v6 IfaceOther p = Inl TypeAssertionPanic
   \<and> ValidateAndSetConfig v6 IfaceNil p = Inl TypeAssertionPanic"
  by (simp add: Disable_def Enable_def fresh_def NewGotifyPluginInstance_def
        ValidateAndSetConfig_def)

section \<open>Messages before the first Enable\<close>

text \<open>
  Claim C10. While the client is nil, an accepted message is answered with 200 and
  appended to the queue; the trace shows the mutex taken and released around the append
  and no call on the client. With a client that reports that it is not connected in place
  of the nil one, the answer and the plugin afterwards are the same, the client apart.
\<close>

theorem nil_client_queues:
  assumes "mqttClient (plug w) = None" and "msgHandler (plug w) \<noteq> None"
  shows "webhook (accepted msg) w =
           Inr ((200, ''status'', ''Message forwarded to MQTT and Gotify''),
                w\<lparr>plug := (plug w)\<lparr>messageQueue := messageQueue (plug w) @ [msg]\<rparr>,
                   trace := trace w @ [MuLock, QueueAppend msg, MuUnlock]\<rparr>)
         \<and> (\<not> connected cl \<longrightarrow>
              map_sum id (map_prod id plug)
                (webhook (accepted msg) (w\<lparr>plug := (plug w)\<lparr>mqttClient := Some cl\<rparr>\<rparr>))
              = Inr ((200, ''status'', ''Message forwarded to MQTT and Gotify''),
                     (plug w)\<lparr>mqttClient := Some cl,
                              messageQueue := messageQueue (plug w) @ [msg]\<rparr>))"
proof -
  have d: "disconnected w" using assms(1) by (simp add: disconnected_def)
  have 1: "webhook (accepted msg) w =
           Inr ((200, ''status'', ''Message forwarded to MQTT and Gotify''),
                w\<lparr>plug := (plug w)\<lparr>messageQueue := messageQueue (plug w) @ [msg]\<rparr>,
                   trace := trace w @ [MuLock, QueueAppend msg, MuUnlock]\<rparr>)"
    using webhook_queues [OF assms(2) d, of msg] assms(1) by simp
  have 2: "map_sum id (map_prod id plug)
                (webhook (accepted msg) (w\<lparr>plug := (plug w)\<lparr>mqttClient := Some cl\<rparr>\<rparr>))
              = Inr ((200, ''status'', ''Message forwarded to MQTT and Gotify''),
                     (plug w)\<lparr>mqttClient := Some cl,
                              messageQueue := messageQueue (plug w) @ [msg]\<rparr>)"
    if n: "\<not> connected cl"
  proof -
    let ?w = "w\<lparr>plug := (plug w)\<lparr>mqttClient := Some cl\<rparr>\<rparr>"
    have "msgHandler (plug ?w) \<noteq> None" and "disconnected ?w"
      using assms(2) n by (simp_all add: disconnected_def)
    from webhook_queues [OF this, of msg] show ?thesis by simp
  qed
  from 1 2 show ?thesis by blast
qed

theorem nil_client_queues_witness:
  "mqttClient (plug ready) = None \<and> msgHandler (plug ready) \<noteq> None
   \<and> webhook (accepted (text_message ''a'')) ready =
           Inr ((200, ''status'', ''Message forwarded to MQTT and Gotify''),
                ready\<lparr>plug := (plug ready)\<lparr>messageQueue := [text_message ''a'']\<rparr>,
                   trace := [MuLock, QueueAppend (text_message ''a''), MuUnlock]\<rparr>)
   \<and> \<not> connected (NewClient (NewClientOptions DefaultConfig))
   \<and> map_sum id (map_prod id plug)
       (webhook (accepted (text_message ''a''))
          (ready\<lparr>plug := (plug ready)\<lparr>mqttClient :=
                    Some (NewClient (NewClientOptions DefaultConfig))\<rparr>\<rparr>))
     = Inr ((200, ''status'', ''Message forwarded to MQTT and Gotify''),
            (plug ready)\<lparr>mqttClient := Some (NewClient (NewClientOptions DefaultConfig)),
                        messageQueue := [text_message ''a'']\<rparr>)"
proof -
  have h1: "mqttClient (plug ready) = None" by simp
  have h2: "msgHandler (plug ready) \<noteq> None" by simp
  have h3: "\<not> connected (NewClient (NewClientOptions DefaultConfig))"
    by (simp add: NewClient_def)
  show ?thesis
    using nil_client_queues
            [OF h1 h2, of "text_message ''a''" "NewClient (NewClientOptions DefaultConfig)"] h3
    by simp
qed

end
